theory Spec2Isabelle
  imports Complex_Main "HOL-Library.Word"
begin

section \<open>The editor's cursor and content model (Editor.tsx, the variant whose State
  holds the composition flag and the two element references)\<close>

text \<open>
  JavaScript strings are sequences of UTF-16 code units: \<open>length\<close>, \<open>substr\<close> and
  \<open>split("")\<close> all count code units. Cursor indices are JavaScript numbers that only ever
  hold integers, modelled as \<open>int\<close> (negative values are possible and matter). Pixel
  quantities are modelled as \<open>real\<close>; the only arithmetic done on them is one addition,
  one subtraction and one halving.
\<close>

type_synonym jsstring = "16 word list"

subsection \<open>JavaScript library functions used by the source\<close>

text \<open>\<open>Array.prototype.slice(start, end)\<close>: a negative bound counts from the end, both
  bounds are clamped into \<open>[0, len]\<close>, a missing end is \<open>len\<close>.\<close>

definition array_slice :: "'a list \<Rightarrow> int \<Rightarrow> int option \<Rightarrow> 'a list" where
  "array_slice xs start end =
     (let len = int (length xs);
          k = (if start < 0 then max (len + start) 0 else min start len);
          relEnd = (case end of None \<Rightarrow> len | Some e \<Rightarrow> e);
          final = (if relEnd < 0 then max (len + relEnd) 0 else min relEnd len)
      in take (nat (final - k)) (drop (nat k) xs))"

text \<open>\<open>String.prototype.substr(start, length)\<close>: a negative start counts from the end, a
  negative length is treated as 0, a missing length means "to the end".\<close>

definition substr :: "jsstring \<Rightarrow> int \<Rightarrow> int option \<Rightarrow> jsstring" where
  "substr str start len =
     (let size = int (length str);
          s = (if start < 0 then max (size + start) 0 else min start size);
          l = (case len of None \<Rightarrow> size | Some n \<Rightarrow> min (max n 0) size);
          e = min (s + l) size
      in take (nat (e - s)) (drop (nat s) str))"

text \<open>\<open>str.split("")\<close> and \<open>array.join("")\<close>.\<close>

definition split_chars :: "jsstring \<Rightarrow> jsstring list" where
  "split_chars str = map (\<lambda>c. [c]) str"

definition join_chars :: "jsstring list \<Rightarrow> jsstring" where
  "join_chars parts = concat parts"

text \<open>\<open>Array.prototype.indexOf\<close>: the first position holding the element, \<open>-1\<close> if there is
  none. Elements are compared by identity; every DOM node of the model carries its identity
  (\<open>nodeId\<close>), so equality of values is equality of nodes.\<close>

fun indexOf :: "'a list \<Rightarrow> 'a \<Rightarrow> int" where
  "indexOf [] x = -1"
| "indexOf (y # ys) x =
     (if y = x then 0 else (let r = indexOf ys x in if r < 0 then -1 else r + 1))"

subsection \<open>Data model\<close>

record IRect =
  left :: real
  top_px :: real
  width :: real
  height :: real

definition RectZero :: IRect where
  "RectZero = \<lparr>left = 0, top_px = 0, width = 0, height = 0\<rparr>"

definition rectEqual :: "IRect \<Rightarrow> IRect \<Rightarrow> bool" where
  "rectEqual rectA rectB \<longleftrightarrow>
     left rectA = left rectB \<and> top_px rectA = top_px rectB \<and>
     width rectA = width rectB \<and> height rectA = height rectB"

text \<open>The rectangle a browser measures for an element: its width and height are never
  negative.\<close>

typedef DOMRect = "{r :: IRect. 0 \<le> width r \<and> 0 \<le> height r}"
  morphisms rectOf measured
  by (rule exI [of _ "\<lparr>left = 0, top_px = 0, width = 0, height = 0\<rparr>"]) simp

text \<open>A rendered DOM element, as far as the source looks at it: its identity, the
  \<open>style.pointerEvents\<close> string, the rectangle the browser has measured for it, and its
  element children in document order.\<close>

datatype Element =
  Element (nodeId: nat) (pointerEvents: string) (clientRect: DOMRect)
          (children: "Element list")

definition getBoundingClientRect :: "Element \<Rightarrow> IRect" where
  "getBoundingClientRect el = rectOf (clientRect el)"

text \<open>An element handed to the code together with what its \<open>parentElement\<close> property
  reads (\<open>None\<close> for \<open>null\<close>).\<close>

record HTMLElement =
  self :: Element
  parentElement :: "Element option"

text \<open>The hidden textarea: the text it currently holds and whether it has the focus.\<close>

record HTMLTextAreaElement =
  textValue :: jsstring
  focused :: bool

record State =
  content :: jsstring
  inputText :: jsstring
  cursorIndex :: int
  cursorRect :: IRect
  contentElement :: "Element option"
  textareaElement :: "HTMLTextAreaElement option"
  composition :: bool

text \<open>A React synthetic mouse event. It is a pooled object: when the handler has returned,
  React releases it and sets its properties to \<open>null\<close> (the source's comment on \<open>target\<close>
  says so). \<open>clientX\<close> is \<open>None\<close> when it reads \<open>null\<close>; the target is nulled as well, but
  the source reads it before the release only.\<close>

record MouseEvent =
  target :: HTMLElement
  clientX :: "real option"

definition releaseEvent :: "MouseEvent \<Rightarrow> MouseEvent" where
  "releaseEvent e = e\<lparr>clientX := None\<rparr>"

text \<open>JavaScript's conversion of an operand of \<open>-\<close> to a number: \<open>null\<close> becomes 0.\<close>

definition toNumber :: "real option \<Rightarrow> real" where
  "toNumber v = (case v of None \<Rightarrow> 0 | Some x \<Rightarrow> x)"

datatype error = InvalidCursorIndex int nat | TypeError

subsection \<open>Helpers\<close>

definition getChildIndex :: "HTMLElement \<Rightarrow> (Element \<Rightarrow> bool) \<Rightarrow> int" where
  "getChildIndex el flt =
     (case parentElement el of
        None \<Rightarrow> -1
      | Some parent \<Rightarrow> indexOf (filter (\<lambda>e. \<not> flt e) (children parent)) (self el))"

definition inserted :: "'a list \<Rightarrow> 'a \<Rightarrow> int \<Rightarrow> 'a list" where
  "inserted array el toIndex =
     array_slice array 0 (Some toIndex) @ [el] @ array_slice array toIndex None"

definition isCursor :: "Element \<Rightarrow> bool" where
  "isCursor el \<longleftrightarrow> pointerEvents el = ''none''"

definition removeCharacterAtIndex :: "jsstring \<Rightarrow> int \<Rightarrow> jsstring" where
  "removeCharacterAtIndex str index =
     substr str 0 (Some index) @ substr str (index + 1) None"

subsection \<open>Tree walker\<close>

text \<open>The callback may update what it has collected so far (\<open>'acc\<close>) and returns whether the
  walk should stop. \<open>walkChildren\<close> is the \<open>for ... of\<close> loop over the children.\<close>

fun walkTreeTermination ::
    "Element \<Rightarrow> (Element \<Rightarrow> 'acc \<Rightarrow> bool \<times> 'acc) \<Rightarrow> 'acc \<Rightarrow> bool \<times> 'acc"
  and walkChildren ::
    "Element list \<Rightarrow> (Element \<Rightarrow> 'acc \<Rightarrow> bool \<times> 'acc) \<Rightarrow> 'acc \<Rightarrow> bool \<times> 'acc"
where
  "walkTreeTermination (Element i pe r cs) callback acc =
     (if length cs = 0 then callback (Element i pe r cs) acc
      else walkChildren cs callback acc)"
| "walkChildren [] callback acc = (False, acc)"
| "walkChildren (n # ns) callback acc =
     (case walkTreeTermination n callback acc of
        (True, acc') \<Rightarrow> (True, acc')
      | (False, acc') \<Rightarrow> walkChildren ns callback acc')"

definition terminalElements :: "Element \<Rightarrow> Element list" where
  "terminalElements rootElement =
     snd (walkTreeTermination rootElement (\<lambda>el elements. (False, elements @ [el])) [])"

text \<open>The spec's Tree Walker, written from its words: a node with no children is a
  terminal and is the result; a node with children is not itself a terminal, and its
  children are visited in document order. The content terminals are the terminals that
  are not the caret overlay, and the terminal count of a state is their number.\<close>

fun spec_terminalNodes :: "Element \<Rightarrow> Element list" where
  "spec_terminalNodes (Element i pe r cs) =
     (if cs = [] then [Element i pe r cs] else concat (map spec_terminalNodes cs))"

definition spec_contentTerminals :: "Element \<Rightarrow> Element list" where
  "spec_contentTerminals rootElement =
     filter (\<lambda>el. \<not> isCursor el) (spec_terminalNodes rootElement)"

subsection \<open>Rect resolver\<close>

text \<open>The body of \<open>cursorRectForIndex\<close> below the binding of \<open>elems\<close>. The check
  \<open>elems === null\<close> of the source can never succeed (\<open>terminalElements\<close> returns an array)
  and has no branch here. \<open>elems[index]\<close> is \<open>undefined\<close> exactly when the index is not a
  position of the array, and then the source throws.\<close>

definition cursorRectForElems :: "int \<Rightarrow> Element list \<Rightarrow> error + IRect" where
  "cursorRectForElems index elems =
     (let w = -1 in
      if length elems = 0 then
        Inr \<lparr>left = 0, top_px = 0, width = w, height = 20\<rparr>
      else if index = int (length elems) then
        (let el = elems ! (length elems - 1);
             rect = getBoundingClientRect el
         in Inr \<lparr>left = left rect + width rect, top_px = top_px rect,
                 width = w, height = height rect\<rparr>)
      else if index < 0 \<or> int (length elems) \<le> index then
        Inl (InvalidCursorIndex index (length elems))
      else
        (let rect = getBoundingClientRect (elems ! nat index)
         in Inr \<lparr>left = left rect, top_px = top_px rect,
                 width = w, height = height rect\<rparr>))"

definition cursorRectForIndex :: "int \<Rightarrow> Element \<Rightarrow> error + IRect" where
  "cursorRectForIndex index inElement = cursorRectForElems index (terminalElements inElement)"

subsection \<open>Content model: the state updaters\<close>

definition removeCharacterAtCursor :: "State \<Rightarrow> State" where
  "removeCharacterAtCursor state =
     (let index = cursorIndex state - 1;
          content' = removeCharacterAtIndex (content state) index
      in state\<lparr>content := content', cursorIndex := max 0 index\<rparr>)"

text \<open>\<open>terminalElements\<close> always returns an array, so \<open>maxIndex\<close> is its length; the
  alternative \<open>0\<close> of the source is never chosen.\<close>

definition moveCursorDelta :: "int \<Rightarrow> State \<Rightarrow> State" where
  "moveCursorDelta delta state =
     (case contentElement state of
        None \<Rightarrow> state
      | Some ce \<Rightarrow>
          (let elems = terminalElements ce;
               maxIndex = int (length elems);
               index = cursorIndex state + delta
           in state\<lparr>cursorIndex := min maxIndex (max 0 index)\<rparr>))"

text \<open>The spec's terminal count \<open>N\<close> of a state (0 while no content element is attached).\<close>

definition spec_terminalCount :: "State \<Rightarrow> int" where
  "spec_terminalCount state =
     (case contentElement state of
        None \<Rightarrow> 0
      | Some ce \<Rightarrow> int (length (spec_contentTerminals ce)))"

definition fixTextarea :: "State \<Rightarrow> State" where
  "fixTextarea state =
     (case textareaElement state of
        None \<Rightarrow> state
      | Some ta \<Rightarrow>
          (let text = textValue ta
           in state\<lparr>composition := False,
                    inputText := [],
                    cursorIndex := cursorIndex state + int (length text),
                    content := join_chars
                      (inserted (split_chars (content state)) text (cursorIndex state))\<rparr>))"

text \<open>\<open>moveCursorWithClick(e)\<close> reads \<open>e.target\<close> at once and returns the updater; the
  updater reads \<open>e.clientX\<close> from the same event object when it runs. The first argument
  is the event as it is when \<open>moveCursorWithClick\<close> is called, the second the event as it
  is when the updater runs.\<close>

definition moveCursorWithClick :: "MouseEvent \<Rightarrow> MouseEvent \<Rightarrow> State \<Rightarrow> State" where
  "moveCursorWithClick e eLater =
     (let tgt = target e in
      (\<lambda>state.
        (case textareaElement state of
           None \<Rightarrow> state
         | Some ta \<Rightarrow>
             (let bounds = getBoundingClientRect (self tgt);
                  isRight = (toNumber (clientX eLater) - left bounds > width bounds / 2);
                  cursorIndex' = getChildIndex tgt isCursor + (if isRight then 1 else 0)
              in state\<lparr>textareaElement := Some (ta\<lparr>focused := True\<rparr>),
                       inputText := [],
                       cursorIndex := cursorIndex'\<rparr>))))"

text \<open>\<open>updateContentElement\<close> returns \<open>null\<close> (no update, \<open>None\<close>) or the next state, and
  throws when \<open>cursorRectForIndex\<close> does. Whether \<open>c\<close> is the element already stored is
  decided by identity.\<close>

definition updateContentElement :: "Element option \<Rightarrow> State \<Rightarrow> error + State option" where
  "updateContentElement c state =
     (case c of
        None \<Rightarrow> Inr None
      | Some ce \<Rightarrow>
          (case cursorRectForIndex (cursorIndex state) ce of
             Inl err \<Rightarrow> Inl err
           | Inr rect \<Rightarrow>
               (let rectChanged = \<not> rectEqual rect (cursorRect state);
                    elemChanged = (Some ce \<noteq> contentElement state)
                in if \<not> rectChanged \<and> \<not> elemChanged then Inr None
                   else Inr (Some (state\<lparr>cursorRect := (if rectChanged then rect else cursorRect state),
                                         contentElement := (if elemChanged then Some ce
                                                            else contentElement state)\<rparr>)))))"

subsection \<open>The Editor component: handlers and event dispatch\<close>

text \<open>The component's initial state; the content is the string "Hello, world".\<close>

definition initialState :: State where
  "initialState =
     \<lparr>content = [0x48, 0x65, 0x6C, 0x6C, 0x6F, 0x2C, 0x20, 0x77, 0x6F, 0x72, 0x6C, 0x64],
      inputText = [],
      cursorIndex = 0,
      cursorRect = RectZero,
      contentElement = None,
      textareaElement = None,
      composition = False\<rparr>"

text \<open>Each handler reads \<open>this.state\<close> and passes one update to \<open>setState\<close>; the model
  returns the updated state. \<open>onKeyDown\<close>, \<open>onCompositionEnd\<close> and \<open>onClickContent\<close> are
  arrow functions stored on the instance, so their \<open>this\<close> is always the component. The
  argument of \<open>onKeyDown\<close> is \<open>e.key\<close>.

  \<open>onChangeTextarea\<close> is a method of the class: its \<open>this\<close> is whatever it is called on.
  \<open>thisArg\<close> is \<open>this.state\<close>, or \<open>None\<close> when \<open>this\<close> is \<open>undefined\<close>, in which case
  reading \<open>this.state\<close> throws a TypeError. The other argument is
  \<open>e.currentTarget.value\<close>.\<close>

definition onChangeTextarea :: "State option \<Rightarrow> jsstring \<Rightarrow> error + State" where
  "onChangeTextarea thisArg text =
     (case thisArg of
        None \<Rightarrow> Inl TypeError
      | Some state \<Rightarrow>
          Inr (if composition state then state\<lparr>inputText := text\<rparr> else fixTextarea state))"

definition onKeyDown :: "string \<Rightarrow> State \<Rightarrow> State" where
  "onKeyDown key state =
     (if key = ''Backspace'' then removeCharacterAtCursor state
      else if key = ''ArrowLeft'' then moveCursorDelta (- 1) state
      else if key = ''ArrowRight'' then moveCursorDelta 1 state
      else state)"

definition onCompositionEnd :: "State \<Rightarrow> State" where
  "onCompositionEnd state = (if composition state then fixTextarea state else state)"

definition onCompositionStart :: "State \<Rightarrow> State" where
  "onCompositionStart state = state\<lparr>composition := True\<rparr>"

definition onCompositionUpdate :: "State \<Rightarrow> State" where
  "onCompositionUpdate state = state"

text \<open>\<open>onClickContent\<close> passes the updater to \<open>setState\<close>; React runs it after the
  handler has returned, when the event has been released.\<close>

definition onClickContent :: "MouseEvent \<Rightarrow> State \<Rightarrow> State" where
  "onClickContent e state = moveCursorWithClick e (releaseEvent e) state"

text \<open>The \<open>ref\<close> callback of the textarea.\<close>

definition textareaRef :: "HTMLTextAreaElement option \<Rightarrow> State \<Rightarrow> State" where
  "textareaRef c state =
     (case c of
        None \<Rightarrow> state
      | Some ta \<Rightarrow> if Some ta \<noteq> textareaElement state
                   then state\<lparr>textareaElement := Some ta\<rparr> else state)"

text \<open>The textarea is a controlled element (\<open>value={this.state.inputText}\<close>): the user's
  edit puts the new text into the element before the change handler runs, and every render
  writes the state's \<open>inputText\<close> back into it. The state refers to that same element.\<close>

definition userInput :: "jsstring \<Rightarrow> State \<Rightarrow> State" where
  "userInput text state =
     state\<lparr>textareaElement := map_option (\<lambda>ta. ta\<lparr>textValue := text\<rparr>) (textareaElement state)\<rparr>"

definition renderTextarea :: "State \<Rightarrow> State" where
  "renderTextarea state =
     state\<lparr>textareaElement :=
              map_option (\<lambda>ta. ta\<lparr>textValue := inputText state\<rparr>) (textareaElement state)\<rparr>"

datatype event =
    KeyDown string
  | Change jsstring
  | CompositionStart
  | CompositionUpdate
  | CompositionEnd
  | Click MouseEvent
  | TextareaRef "HTMLTextAreaElement option"
  | ContentRef "Element option"

text \<open>What delivering one event to the handler that \<open>render\<close> has wired to it gives: an
  updated state, an exception thrown by the handler itself (no update is made), or an
  exception thrown by the updater passed to \<open>setState\<close>. \<open>render\<close> passes
  \<open>this.onChangeTextarea\<close> as it is (\<open>onChange={this.onChangeTextarea}\<close>), so React calls
  it with \<open>this\<close> undefined.\<close>

datatype outcome = Updated State | HandlerThrew error | UpdaterThrew error

fun handle :: "event \<Rightarrow> State \<Rightarrow> outcome" where
  "handle (KeyDown key) state = Updated (onKeyDown key state)"
| "handle (Change text) state =
     (case onChangeTextarea None text of
        Inl err \<Rightarrow> HandlerThrew err
      | Inr state' \<Rightarrow> Updated state')"
| "handle CompositionStart state = Updated (onCompositionStart state)"
| "handle CompositionUpdate state = Updated (onCompositionUpdate state)"
| "handle CompositionEnd state = Updated (onCompositionEnd state)"
| "handle (Click e) state = Updated (onClickContent e state)"
| "handle (TextareaRef c) state = Updated (textareaRef c state)"
| "handle (ContentRef c) state =
     (case updateContentElement c state of
        Inl err \<Rightarrow> UpdaterThrew err
      | Inr None \<Rightarrow> Updated state
      | Inr (Some state') \<Rightarrow> Updated state')"

text \<open>What the browser has done to the textarea when the event arrives.\<close>

fun domInput :: "event \<Rightarrow> State \<Rightarrow> State" where
  "domInput (Change text) state = userInput text state"
| "domInput ev state = state"

text \<open>One event, from the state before it to the state after it. When the handler throws,
  React reports the error and the state stays as it was; when the updater throws, the
  component is unmounted and there is no next state (\<open>None\<close>). In either surviving case
  the controlled textarea is written again from \<open>inputText\<close>.\<close>

definition dispatch :: "event \<Rightarrow> State \<Rightarrow> State option" where
  "dispatch ev state =
     (case handle ev (domInput ev state) of
        Updated state' \<Rightarrow> Some (renderTextarea state')
      | HandlerThrew err \<Rightarrow> Some (renderTextarea (domInput ev state))
      | UpdaterThrew err \<Rightarrow> None)"

fun run :: "event list \<Rightarrow> State \<Rightarrow> State option" where
  "run [] state = Some state"
| "run (ev # evs) state =
     (case dispatch ev state of None \<Rightarrow> None | Some state' \<Rightarrow> run evs state')"


subsection \<open>Concrete inputs\<close>

text \<open>A glyph 20 pixels wide and 16 high whose left edge is at \<open>x\<close>.\<close>

definition glyph :: "nat \<Rightarrow> real \<Rightarrow> Element" where
  "glyph i x =
     Element i [] (measured \<lparr>left = x, top_px = 0, width = 20, height = 16\<rparr>) []"

text \<open>The caret overlay: the span with \<open>pointerEvents: "none"\<close> that holds the pending
  input, here empty.\<close>

definition caretSpan :: "nat \<Rightarrow> real \<Rightarrow> Element" where
  "caretSpan i x =
     Element i ''none'' (measured \<lparr>left = x, top_px = 0, width = 0, height = 16\<rparr>) []"

text \<open>The \<open><b>\<close> element rendered for the content "Hi" with the caret in front, and the
  content \<open><div>\<close> around it.\<close>

definition boldHi :: Element where
  "boldHi = Element 1 [] (measured \<lparr>left = 100, top_px = 0, width = 40, height = 16\<rparr>)
              [caretSpan 2 100, glyph 3 100, glyph 4 120]"

definition divHi :: Element where
  "divHi = Element 0 [] (measured \<lparr>left = 100, top_px = 0, width = 300, height = 16\<rparr>)
             [boldHi]"


definition stateHi :: State where
  "stateHi =
     \<lparr>content = [0x48, 0x69],
      inputText = [],
      cursorIndex = 0,
      cursorRect = \<lparr>left = 100, top_px = 0, width = - 1, height = 16\<rparr>,
      contentElement = Some divHi,
      textareaElement = Some \<lparr>textValue = [], focused = False\<rparr>,
      composition = False\<rparr>"

text \<open>The same editor with the caret between "H" and "i" and the text "ab" typed into the
  textarea but not yet committed.\<close>

definition stateTyped :: State where
  "stateTyped =
     stateHi\<lparr>cursorIndex := 1,
             textareaElement := Some \<lparr>textValue = [0x61, 0x62], focused = False\<rparr>\<rparr>"

text \<open>A state in the middle of a composition that holds the pending input "a".\<close>

definition stateComposing :: State where
  "stateComposing =
     initialState\<lparr>inputText := [0x61],
                  textareaElement := Some \<lparr>textValue = [0x61], focused = False\<rparr>,
                  composition := True\<rparr>"


text \<open>A click on the glyph "H" (the second child of \<open><b>\<close>, the first content child) at
  a given \<open>clientX\<close>, and a click on an element whose \<open>parentElement\<close> is \<open>null\<close>.\<close>

definition clickOnH :: "real \<Rightarrow> MouseEvent" where
  "clickOnH x =
     \<lparr>target = \<lparr>self = glyph 3 100, parentElement = Some boldHi\<rparr>, clientX = Some x\<rparr>"

definition clickDetached :: "real \<Rightarrow> MouseEvent" where
  "clickDetached x =
     \<lparr>target = \<lparr>self = glyph 3 100, parentElement = None\<rparr>, clientX = Some x\<rparr>"

section \<open>Library functions on in-range arguments\<close>

lemma array_slice_prefix: "0 \<le> i \<Longrightarrow> array_slice xs 0 (Some i) = take (nat i) xs"
  by (auto simp: array_slice_def Let_def min_def)

lemma array_slice_suffix: "0 \<le> i \<Longrightarrow> array_slice xs i None = drop (nat i) xs"
  by (auto simp: array_slice_def Let_def min_def)

lemma join_split_chars: "join_chars (map (\<lambda>c. [c]) xs) = xs"
  by (induction xs) (simp_all add: join_chars_def)

lemma join_inserted:
  assumes "0 \<le> i"
  shows "join_chars (inserted (split_chars str) text i)
         = take (nat i) str @ text @ drop (nat i) str"
proof -
  have a: "concat (take (nat i) (map (\<lambda>c. [c]) str)) = take (nat i) str"
    using join_split_chars [of "take (nat i) str"] by (simp add: take_map join_chars_def)
  have b: "concat (drop (nat i) (map (\<lambda>c. [c]) str)) = drop (nat i) str"
    using join_split_chars [of "drop (nat i) str"] by (simp add: drop_map join_chars_def)
  show ?thesis
    using assms a b
    by (simp add: inserted_def split_chars_def join_chars_def
        array_slice_prefix array_slice_suffix)
qed

lemma substr_prefix: "0 \<le> i \<Longrightarrow> substr str 0 (Some i) = take (nat i) str"
  by (auto simp: substr_def Let_def min_def max_def)

lemma substr_suffix: "0 \<le> j \<Longrightarrow> substr str j None = drop (nat j) str"
  by (auto simp: substr_def Let_def min_def max_def)

lemma substr_negative_length: "n < 0 \<Longrightarrow> substr str 0 (Some n) = []"
  by (auto simp: substr_def Let_def min_def max_def)

lemma removeCharacterAtIndex_nonneg:
  "0 \<le> i \<Longrightarrow> removeCharacterAtIndex str i = take (nat i) str @ drop (Suc (nat i)) str"
  by (simp add: removeCharacterAtIndex_def substr_prefix substr_suffix nat_add_distrib)

lemma removeCharacterAtIndex_minus_one: "removeCharacterAtIndex str (- 1) = str"
  by (simp add: removeCharacterAtIndex_def substr_negative_length substr_suffix)

section \<open>Tree walker\<close>

text \<open>Walking with the collecting callback never stops early and collects exactly the
  terminals the spec describes, in document order; there is always at least one, because a
  node without children is itself a terminal.\<close>

lemma walkChildren_terminals:
  assumes "\<And>c acc. c \<in> set cs \<Longrightarrow>
             walkTreeTermination c (\<lambda>el elements. (False, elements @ [el])) acc
               = (False, acc @ spec_terminalNodes c)"
  shows "walkChildren cs (\<lambda>el elements. (False, elements @ [el])) acc
           = (False, acc @ concat (map spec_terminalNodes cs))"
  using assms
proof (induction cs arbitrary: acc)
  case Nil
  then show ?case by simp
next
  case (Cons c cs)
  have "walkChildren cs (\<lambda>el elements. (False, elements @ [el])) (acc @ spec_terminalNodes c)
          = (False, (acc @ spec_terminalNodes c) @ concat (map spec_terminalNodes cs))"
    using Cons.IH [of "acc @ spec_terminalNodes c"] Cons.prems by simp
  then show ?case using Cons.prems [of c acc] by simp
qed

lemma walkTreeTermination_terminals:
  "walkTreeTermination e (\<lambda>el elements. (False, elements @ [el])) acc
     = (False, acc @ spec_terminalNodes e)"
proof (induction e arbitrary: acc)
  case (Element i pe r cs)
  show ?case
  proof (cases "cs = []")
    case True
    then show ?thesis by simp
  next
    case False
    then show ?thesis using walkChildren_terminals [of cs acc] Element.IH by simp
  qed
qed

lemma terminalElements_spec: "terminalElements e = spec_terminalNodes e"
  by (simp add: terminalElements_def walkTreeTermination_terminals)

lemma spec_terminalNodes_nonempty: "spec_terminalNodes e \<noteq> []"
proof (induction e)
  case (Element i pe r cs)
  show ?case
  proof (cases cs)
    case Nil
    then show ?thesis by simp
  next
    case (Cons c cs')
    then have "spec_terminalNodes c \<noteq> []" using Element.IH [of c] by simp
    then show ?thesis using Cons by simp
  qed
qed

lemma terminalElements_nonempty: "terminalElements e \<noteq> []"
  by (simp add: terminalElements_spec spec_terminalNodes_nonempty)

lemma length_spec_contentTerminals:
  "length (spec_contentTerminals e) \<le> length (terminalElements e)"
  by (simp add: spec_contentTerminals_def terminalElements_spec)

lemma terminals_divHi: "terminalElements divHi = [caretSpan 2 100, glyph 3 100, glyph 4 120]"
  by (simp add: terminalElements_spec divHi_def boldHi_def caretSpan_def glyph_def)

lemma contentTerminals_divHi: "spec_contentTerminals divHi = [glyph 3 100, glyph 4 120]"
  by (simp add: spec_contentTerminals_def divHi_def boldHi_def caretSpan_def glyph_def
      isCursor_def)


lemma bounds_glyph:
  "getBoundingClientRect (glyph i x) = \<lparr>left = x, top_px = 0, width = 20, height = 16\<rparr>"
  by (simp add: glyph_def getBoundingClientRect_def measured_inverse)

lemma bounds_caretSpan:
  "getBoundingClientRect (caretSpan i x) = \<lparr>left = x, top_px = 0, width = 0, height = 16\<rparr>"
  by (simp add: caretSpan_def getBoundingClientRect_def measured_inverse)

lemma bounds_nonnegative:
  "0 \<le> width (getBoundingClientRect el) \<and> 0 \<le> height (getBoundingClientRect el)"
  using rectOf [of "clientRect el"] by (simp add: getBoundingClientRect_def)

section \<open>Content model\<close>

subsection \<open>Insert, then delete backwards\<close>

lemma remove_one:
  assumes "content x = pre @ a # post" and "cursorIndex x = int (length pre) + 1"
  shows "content (removeCharacterAtCursor x) = pre @ post"
    and "cursorIndex (removeCharacterAtCursor x) = int (length pre)"
  using assms
  by (simp_all add: removeCharacterAtCursor_def Let_def removeCharacterAtIndex_nonneg)

text \<open>Deleting backwards as often as a run is long removes the run that ends at the
  cursor: induction on the run from its end.\<close>

lemma remove_run:
  "content x = pre @ t @ post \<Longrightarrow> cursorIndex x = int (length pre + length t) \<Longrightarrow>
   content ((removeCharacterAtCursor ^^ length t) x) = pre @ post \<and>
   cursorIndex ((removeCharacterAtCursor ^^ length t) x) = int (length pre)"
proof (induction t arbitrary: x rule: rev_induct)
  case Nil
  then show ?case by simp
next
  case (snoc a t)
  have c: "content x = (pre @ t) @ a # post" using snoc.prems(1) by simp
  have i: "cursorIndex x = int (length (pre @ t)) + 1" using snoc.prems(2) by simp
  have "content (removeCharacterAtCursor x) = pre @ t @ post"
    using remove_one(1) [OF c i] by simp
  moreover have "cursorIndex (removeCharacterAtCursor x) = int (length pre + length t)"
    using remove_one(2) [OF c i] by simp
  ultimately show ?case
    using snoc.IH [of "removeCharacterAtCursor x"] by (simp add: funpow_swap1)
qed

text \<open>
  C1. Round trip: in a state whose cursor index lies within the buffer, committing the
  textarea's text \<open>t\<close> with \<open>fixTextarea\<close> (which splices \<open>t\<close> in at the cursor and advances
  the cursor by the length of \<open>t\<close>) and then applying \<open>removeCharacterAtCursor\<close> as many
  times as \<open>t\<close> is long restores the original buffer and the original cursor index.
\<close>

theorem insert_then_delete_roundtrip:
  assumes "textareaElement s = Some ta"
    and "0 \<le> cursorIndex s" and "cursorIndex s \<le> int (length (content s))"
  shows "content (fixTextarea s)
           = take (nat (cursorIndex s)) (content s) @ textValue ta
             @ drop (nat (cursorIndex s)) (content s)
       \<and> cursorIndex (fixTextarea s) = cursorIndex s + int (length (textValue ta))
       \<and> content ((removeCharacterAtCursor ^^ length (textValue ta)) (fixTextarea s))
           = content s
       \<and> cursorIndex ((removeCharacterAtCursor ^^ length (textValue ta)) (fixTextarea s))
           = cursorIndex s"
proof -
  let ?i = "nat (cursorIndex s)"
  let ?t = "textValue ta"
  have c: "content (fixTextarea s) = take ?i (content s) @ ?t @ drop ?i (content s)"
    using assms by (simp add: fixTextarea_def Let_def join_inserted)
  have j: "cursorIndex (fixTextarea s) = cursorIndex s + int (length ?t)"
    using assms by (simp add: fixTextarea_def Let_def)
  have k: "cursorIndex (fixTextarea s) = int (length (take ?i (content s)) + length ?t)"
    using assms by (auto simp: fixTextarea_def Let_def min_def)
  show ?thesis using remove_run [OF c k] c j assms by simp
qed

theorem insert_then_delete_roundtrip_witness:
  "textareaElement stateTyped = Some \<lparr>textValue = [0x61, 0x62], focused = False\<rparr>
   \<and> content stateTyped = [0x48, 0x69] \<and> cursorIndex stateTyped = 1
   \<and> content (fixTextarea stateTyped) = [0x48, 0x61, 0x62, 0x69]
   \<and> cursorIndex (fixTextarea stateTyped) = 3
   \<and> content ((removeCharacterAtCursor ^^ 2) (fixTextarea stateTyped)) = [0x48, 0x69]
   \<and> cursorIndex ((removeCharacterAtCursor ^^ 2) (fixTextarea stateTyped)) = 1"
proof -
  have t: "textareaElement stateTyped = Some \<lparr>textValue = [0x61, 0x62], focused = False\<rparr>"
    by (simp add: stateTyped_def)
  have lo: "0 \<le> cursorIndex stateTyped"
    by (simp add: stateTyped_def)
  have hi: "cursorIndex stateTyped \<le> int (length (content stateTyped))"
    by (simp add: stateTyped_def stateHi_def)
  show ?thesis
    using insert_then_delete_roundtrip [OF t lo hi] t
    by (simp add: stateTyped_def stateHi_def numeral_2_eq_2)
qed

subsection \<open>Delete backwards\<close>

text \<open>
  C2, as stated, fails for a cursor index beyond the end of the buffer: there is no unit at
  \<open>cursorIndex - 1\<close> and nothing is removed, only the index is lowered. Such a state is
  reached from the editor showing "Hi" by pressing ArrowRight three times (the cursor
  stops at 3, not at 2); Backspace then leaves "Hi" as it is.
\<close>

theorem deleteBackward_counterexample:
  "onKeyDown ''ArrowRight'' (onKeyDown ''ArrowRight'' (onKeyDown ''ArrowRight'' stateHi))
     = stateHi\<lparr>cursorIndex := 3\<rparr>
   \<and> content (stateHi\<lparr>cursorIndex := 3\<rparr>) = [0x48, 0x69]
   \<and> 0 < cursorIndex (stateHi\<lparr>cursorIndex := 3\<rparr>)
   \<and> removeCharacterAtCursor (stateHi\<lparr>cursorIndex := 3\<rparr>) = stateHi\<lparr>cursorIndex := 2\<rparr>
   \<and> content (removeCharacterAtCursor (stateHi\<lparr>cursorIndex := 3\<rparr>)) = [0x48, 0x69]"
  by (simp add: onKeyDown_def moveCursorDelta_def Let_def terminals_divHi stateHi_def removeCharacterAtCursor_def removeCharacterAtIndex_def substr_def)

text \<open>
  C2, amended. With the cursor at index 0, \<open>removeCharacterAtCursor\<close> returns the state
  as it is (the function has no failing branch). With the cursor at an index above 0 and
  not beyond the length of the buffer, it removes exactly the single code unit at position
  \<open>cursorIndex - 1\<close> and lowers the cursor index by one, changing nothing else.
\<close>

theorem deleteBackward_cases:
  "(cursorIndex s = 0 \<longrightarrow> removeCharacterAtCursor s = s) \<and>
   (0 < cursorIndex s \<and> cursorIndex s \<le> int (length (content s)) \<longrightarrow>
      removeCharacterAtCursor s =
        s\<lparr>content := take (nat (cursorIndex s - 1)) (content s)
                       @ drop (nat (cursorIndex s)) (content s),
          cursorIndex := cursorIndex s - 1\<rparr>
      \<and> content s = take (nat (cursorIndex s - 1)) (content s)
                     @ [content s ! nat (cursorIndex s - 1)]
                     @ drop (nat (cursorIndex s)) (content s)
      \<and> length (content (removeCharacterAtCursor s)) + 1 = length (content s))"
proof -
  have zero: "removeCharacterAtCursor s = s" if "cursorIndex s = 0"
    using that by (simp add: removeCharacterAtCursor_def Let_def removeCharacterAtIndex_minus_one)
  have pos: "removeCharacterAtCursor s =
        s\<lparr>content := take (nat (cursorIndex s - 1)) (content s)
                       @ drop (nat (cursorIndex s)) (content s),
          cursorIndex := cursorIndex s - 1\<rparr>" if "0 < cursorIndex s"
    using that
    by (simp add: removeCharacterAtCursor_def Let_def removeCharacterAtIndex_nonneg
        Suc_nat_eq_nat_zadd1)
  have split: "content s = take (nat (cursorIndex s - 1)) (content s)
                     @ [content s ! nat (cursorIndex s - 1)]
                     @ drop (nat (cursorIndex s)) (content s)"
    if lo: "0 < cursorIndex s" and hi: "cursorIndex s \<le> int (length (content s))"
  proof -
    have k: "nat (cursorIndex s - 1) < length (content s)" using lo hi by linarith
    have n: "Suc (nat (cursorIndex s - 1)) = nat (cursorIndex s)" using lo by linarith
    show ?thesis using id_take_nth_drop [OF k] n by simp
  qed
  have len: "length (content (removeCharacterAtCursor s)) + 1 = length (content s)"
    if lo: "0 < cursorIndex s" and hi: "cursorIndex s \<le> int (length (content s))"
    using pos [OF lo] lo hi by (simp add: min_def) linarith
  show ?thesis using zero pos split len by blast
qed

theorem deleteBackward_cases_witness:
  "cursorIndex stateHi = 0 \<and> removeCharacterAtCursor stateHi = stateHi
   \<and> 0 < cursorIndex stateTyped
   \<and> cursorIndex stateTyped \<le> int (length (content stateTyped))
   \<and> removeCharacterAtCursor stateTyped = stateTyped\<lparr>content := [0x69], cursorIndex := 0\<rparr>
   \<and> length (content (removeCharacterAtCursor stateTyped)) + 1 = length (content stateTyped)"
  using deleteBackward_cases [of stateHi] deleteBackward_cases [of stateTyped]
  by (simp add: stateTyped_def stateHi_def)

subsection \<open>Moving the cursor\<close>

text \<open>
  C3, as stated, fails: a move that is clamped at an end of the range forgets how far it
  overshot. From cursor index 0, moving by -1 and then by +1 ends at index 1, while moving
  by -1 + 1 = 0 stays at index 0.
\<close>

theorem moveCursor_compose_counterexample:
  "cursorIndex (moveCursorDelta 1 (moveCursorDelta (- 1) stateHi)) = 1
   \<and> cursorIndex (moveCursorDelta (- 1 + 1) stateHi) = 0
   \<and> cursorIndex (moveCursorDelta 1 (moveCursorDelta (- 1) stateHi))
       \<noteq> cursorIndex (moveCursorDelta (- 1 + 1) stateHi)"
  by (simp add: moveCursorDelta_def Let_def terminals_divHi stateHi_def)

text \<open>
  C3, amended. Let \<open>N\<close> be the terminal count of the state. \<open>moveCursorDelta a\<close> followed
  by \<open>moveCursorDelta b\<close> yields the same state, so the same cursor index, as
  \<open>moveCursorDelta (a + b)\<close> whenever the index plus \<open>a\<close> lies in \<open>[0, N]\<close> (the first
  move is not clamped), or both deltas are non-negative and the index is at least 0, or
  both deltas are non-positive and the index is at most \<open>N\<close>. With a content element
  attached the resulting index is at least 0.
\<close>

theorem moveCursor_compose:
  assumes "(0 \<le> cursorIndex s + a \<and> cursorIndex s + a \<le> spec_terminalCount s)
         \<or> (0 \<le> cursorIndex s \<and> 0 \<le> a \<and> 0 \<le> b)
         \<or> (cursorIndex s \<le> spec_terminalCount s \<and> a \<le> 0 \<and> b \<le> 0)"
  shows "moveCursorDelta b (moveCursorDelta a s) = moveCursorDelta (a + b) s
       \<and> cursorIndex (moveCursorDelta b (moveCursorDelta a s))
           = cursorIndex (moveCursorDelta (a + b) s)
       \<and> (contentElement s \<noteq> None \<longrightarrow> 0 \<le> cursorIndex (moveCursorDelta (a + b) s))"
proof (cases "contentElement s")
  case None
  then show ?thesis by (simp add: moveCursorDelta_def)
next
  case (Some ce)
  have n: "spec_terminalCount s \<le> int (length (terminalElements ce))"
    using Some length_spec_contentTerminals [of ce] by (simp add: spec_terminalCount_def)
  have eq: "moveCursorDelta b (moveCursorDelta a s) = moveCursorDelta (a + b) s"
    using assms n Some by (auto simp: moveCursorDelta_def Let_def min_def max_def)
  have lo: "0 \<le> cursorIndex (moveCursorDelta (a + b) s)"
    using Some by (simp add: moveCursorDelta_def Let_def min_def max_def)
  show ?thesis using eq lo by simp
qed

theorem moveCursor_compose_witness:
  "spec_terminalCount stateHi = 2
   \<and> cursorIndex stateHi = 0
   \<and> moveCursorDelta 1 (moveCursorDelta 1 stateHi) = moveCursorDelta (1 + 1) stateHi
   \<and> cursorIndex (moveCursorDelta 1 (moveCursorDelta 1 stateHi)) = 2
   \<and> cursorIndex (moveCursorDelta (1 + 1) stateHi) = 2"
proof -
  have n: "spec_terminalCount stateHi = 2"
    by (simp add: spec_terminalCount_def stateHi_def contentTerminals_divHi)
  have c: "cursorIndex stateHi = 0" by (simp add: stateHi_def)
  have h: "(0 \<le> cursorIndex stateHi + 1 \<and> cursorIndex stateHi + 1 \<le> spec_terminalCount stateHi)
         \<or> (0 \<le> cursorIndex stateHi \<and> (0::int) \<le> 1 \<and> (0::int) \<le> 1)
         \<or> (cursorIndex stateHi \<le> spec_terminalCount stateHi \<and> (1::int) \<le> 0 \<and> (1::int) \<le> 0)"
    using n c by simp
  have v: "cursorIndex (moveCursorDelta (1 + 1) stateHi) = 2"
    by (simp add: moveCursorDelta_def Let_def terminals_divHi stateHi_def)
  show ?thesis using moveCursor_compose [OF h] n c v by simp
qed

section \<open>Rect resolver\<close>

text \<open>\<open>cursorRectForIndex\<close> throws exactly when the index is negative or greater than the
  number of all terminals of the element it is given.\<close>

lemma cursorRectForIndex_raises_iff:
  "(\<exists>err. cursorRectForIndex index inElement = Inl err) \<longleftrightarrow>
     (index < 0 \<or> int (length (terminalElements inElement)) < index)"
  using terminalElements_nonempty [of inElement]
  by (auto simp: cursorRectForIndex_def cursorRectForElems_def Let_def)

text \<open>
  C6. The claim bounds the index by the length of the content-terminal list, which
  excludes the caret overlay. \<open>cursorRectForIndex\<close> takes every terminal of the element,
  the caret overlay included: for the editor showing "Hi" there are two content terminals,
  and index 3 does not throw but returns the right edge of the last glyph.
\<close>

theorem rectForIndex_beyond_content_terminals:
  "spec_contentTerminals divHi = [glyph 3 100, glyph 4 120]
   \<and> int (length (spec_contentTerminals divHi)) < 3
   \<and> cursorRectForIndex 3 divHi
       = Inr \<lparr>left = 140, top_px = 0, width = - 1, height = 16\<rparr>"
  by (simp add: contentTerminals_divHi cursorRectForIndex_def cursorRectForElems_def Let_def
      terminals_divHi bounds_glyph)






section \<open>Index resolver: clicks\<close>

text \<open>In a list of distinct nodes, the position of a node among those that pass a filter
  is the number of passing nodes in front of it; so \<open>getChildIndex\<close> gives the position of
  a content child among its content siblings.\<close>

lemma indexOf_filter_nth:
  "distinct xs \<Longrightarrow> k < length xs \<Longrightarrow> P (xs ! k) \<Longrightarrow>
   indexOf (filter P xs) (xs ! k) = int (length (filter P (take k xs)))"
proof (induction xs arbitrary: k)
  case Nil
  then show ?case by simp
next
  case (Cons x xs)
  show ?case
  proof (cases k)
    case 0
    then show ?thesis using Cons.prems by simp
  next
    case (Suc j)
    have j: "j < length xs" using Cons.prems(2) Suc by simp
    have ne: "x \<noteq> xs ! j" using Cons.prems(1) j by auto
    have ih: "indexOf (filter P xs) (xs ! j) = int (length (filter P (take j xs)))"
      using Cons.IH [of j] Cons.prems j Suc by simp
    show ?thesis using Suc ne ih by (simp add: Let_def)
  qed
qed

lemma getChildIndex_position:
  assumes "parentElement el = Some parent"
    and "k < length (children parent)"
    and "children parent ! k = self el"
    and "distinct (children parent)"
    and "\<not> isCursor (self el)"
  shows "getChildIndex el isCursor
           = int (length (filter (\<lambda>c. \<not> isCursor c) (take k (children parent))))"
  using indexOf_filter_nth [of "children parent" k "\<lambda>c. \<not> isCursor c"] assms
  by (simp add: getChildIndex_def)

lemma click_before_release:
  assumes "textareaElement s = Some ta"
  shows "cursorIndex (moveCursorWithClick e e s)
           = getChildIndex (target e) isCursor
             + (if toNumber (clientX e) - left (getBoundingClientRect (self (target e)))
                     > width (getBoundingClientRect (self (target e))) / 2
                then 1 else 0)"
  using assms by (simp add: moveCursorWithClick_def Let_def)

lemma click_after_release:
  assumes "textareaElement s = Some ta"
    and "0 \<le> left (getBoundingClientRect (self (target e)))"
  shows "cursorIndex (onClickContent e s) = getChildIndex (target e) isCursor"
proof -
  have "0 \<le> width (getBoundingClientRect (self (target e)))"
    using bounds_nonnegative by simp
  then have "\<not> (0 - left (getBoundingClientRect (self (target e)))
                > width (getBoundingClientRect (self (target e))) / 2)"
    using assms(2) by simp
  then show ?thesis
    using assms(1)
    by (simp add: onClickContent_def moveCursorWithClick_def releaseEvent_def toNumber_def
        Let_def)
qed

lemma getChildIndex_clickOnH: "getChildIndex (target (clickOnH x)) isCursor = 0"
proof -
  have d: "distinct (children boldHi)"
    by (simp add: boldHi_def glyph_def caretSpan_def)
  have f: "int (length (filter (\<lambda>c. \<not> isCursor c) (take 1 (children boldHi)))) = 0"
    by (simp add: boldHi_def isCursor_def caretSpan_def)
  have n: "\<not> isCursor (self (target (clickOnH x)))"
    by (simp add: isCursor_def clickOnH_def glyph_def)
  show ?thesis
    using getChildIndex_position [of "target (clickOnH x)" boldHi 1] d f n
    by (simp add: clickOnH_def boldHi_def)
qed

text \<open>
  C7. The updater computes the half of the box from \<open>e.clientX\<close>, but it runs when the
  event has been released and \<open>e.clientX\<close> reads \<open>null\<close>: the offset is then \<open>0 - left\<close>,
  never more than half the width for an element at a non-negative left. The glyph "H"
  (left 100, width 20) is the first content child, \<open>p = 0\<close>. A click at x = 115, in its
  right half, sets the cursor index to 0 and not to 1; read before the release, the same
  event gives 1. A click at x = 105 sets it to 0.
\<close>

theorem click_right_half_after_release:
  "getChildIndex (target (clickOnH 115)) isCursor = 0
   \<and> getBoundingClientRect (self (target (clickOnH 115)))
       = \<lparr>left = 100, top_px = 0, width = 20, height = 16\<rparr>
   \<and> clientX (clickOnH 115) = Some 115
   \<and> cursorIndex (moveCursorWithClick (clickOnH 115) (clickOnH 115) stateHi) = 1
   \<and> cursorIndex (onClickContent (clickOnH 115) stateHi) = 0
   \<and> cursorIndex (onClickContent (clickOnH 105) stateHi) = 0"
proof -
  have t: "textareaElement stateHi = Some \<lparr>textValue = [], focused = False\<rparr>"
    by (simp add: stateHi_def)
  have b: "getBoundingClientRect (self (target (clickOnH x)))
       = \<lparr>left = 100, top_px = 0, width = 20, height = 16\<rparr>" for x
    by (simp add: clickOnH_def bounds_glyph)
  have c: "clientX (clickOnH x) = Some x" for x by (simp add: clickOnH_def)
  have l: "0 \<le> left (getBoundingClientRect (self (target (clickOnH x))))" for x
    by (simp add: b)
  have before: "cursorIndex (moveCursorWithClick (clickOnH 115) (clickOnH 115) stateHi) = 1"
    using click_before_release [OF t, of "clickOnH 115"]
    by (simp add: getChildIndex_clickOnH b c toNumber_def)
  show ?thesis
    using before click_after_release [OF t l] getChildIndex_clickOnH b c by simp
qed

text \<open>
  C8. For a clicked element whose \<open>parentElement\<close> is \<open>null\<close>, \<open>getChildIndex\<close> returns
  \<open>-1\<close>, but \<open>moveCursorWithClick\<close> does not test for it: it adds the half-box offset and
  stores the sum. From cursor index 1 a click at x = 105 leaves the cursor index \<open>-1\<close>
  (read before the release of the event, a click at x = 115 would leave 0), and with index
  \<open>-1\<close> the next \<open>cursorRectForIndex\<close> throws.
\<close>

theorem click_detached_not_ignored:
  "getChildIndex (target (clickDetached 105)) isCursor = - 1
   \<and> cursorIndex stateTyped = 1
   \<and> cursorIndex (onClickContent (clickDetached 105) stateTyped) = - 1
   \<and> cursorIndex (moveCursorWithClick (clickDetached 105) (clickDetached 105) stateTyped) = - 1
   \<and> cursorIndex (moveCursorWithClick (clickDetached 115) (clickDetached 115) stateTyped) = 0
   \<and> onClickContent (clickDetached 105) stateTyped \<noteq> stateTyped
   \<and> cursorRectForIndex (cursorIndex (onClickContent (clickDetached 105) stateTyped)) divHi
       = Inl (InvalidCursorIndex (- 1) 3)"
proof -
  have t: "textareaElement stateTyped = Some \<lparr>textValue = [0x61, 0x62], focused = False\<rparr>"
    by (simp add: stateTyped_def)
  have a: "getChildIndex (target (clickDetached x)) isCursor = - 1" for x
    by (simp add: getChildIndex_def clickDetached_def)
  have bd: "getBoundingClientRect (self (target (clickDetached x)))
       = \<lparr>left = 100, top_px = 0, width = 20, height = 16\<rparr>" for x
    by (simp add: clickDetached_def bounds_glyph)
  have cx: "clientX (clickDetached x) = Some x" for x by (simp add: clickDetached_def)
  have l: "0 \<le> left (getBoundingClientRect (self (target (clickDetached x))))" for x
    by (simp add: bd)
  have b: "cursorIndex (onClickContent (clickDetached 105) stateTyped) = - 1"
    using click_after_release [OF t l] a by simp
  have b1: "cursorIndex (moveCursorWithClick (clickDetached 105) (clickDetached 105) stateTyped)
            = - 1"
    using click_before_release [OF t, of "clickDetached 105"] by (simp add: a bd cx toNumber_def)
  have c: "cursorIndex (moveCursorWithClick (clickDetached 115) (clickDetached 115) stateTyped)
            = 0"
    using click_before_release [OF t, of "clickDetached 115"] by (simp add: a bd cx toNumber_def)
  have d: "cursorIndex stateTyped = 1" by (simp add: stateTyped_def)
  have e: "onClickContent (clickDetached 105) stateTyped \<noteq> stateTyped"
    using b d by auto
  have f: "cursorRectForIndex (- 1) divHi = Inl (InvalidCursorIndex (- 1) 3)"
    by (simp add: cursorRectForIndex_def cursorRectForElems_def Let_def terminals_divHi)
  show ?thesis using a b b1 c d e f by simp
qed

text \<open>
  C10. \<open>moveCursorWithClick\<close> leaves the buffer, the composition flag, the cursor
  rectangle, the content element and the textarea's text as they are, whatever the event
  reads when the updater runs; without a textarea it changes nothing, with one it empties
  the pending input. So a click during a composition discards the pending text and leaves
  the composition flag set.
\<close>

theorem click_frame:
  "content (moveCursorWithClick e eLater s) = content s
   \<and> composition (moveCursorWithClick e eLater s) = composition s
   \<and> cursorRect (moveCursorWithClick e eLater s) = cursorRect s
   \<and> contentElement (moveCursorWithClick e eLater s) = contentElement s
   \<and> map_option textValue (textareaElement (moveCursorWithClick e eLater s))
       = map_option textValue (textareaElement s)
   \<and> (textareaElement s = None \<longrightarrow> moveCursorWithClick e eLater s = s)
   \<and> (textareaElement s \<noteq> None \<longrightarrow> inputText (moveCursorWithClick e eLater s) = [])
   \<and> (textareaElement s \<noteq> None \<and> composition s \<longrightarrow>
        inputText (moveCursorWithClick e eLater s) = []
        \<and> composition (moveCursorWithClick e eLater s))
   \<and> onClickContent e s = moveCursorWithClick e (releaseEvent e) s"
  by (cases "textareaElement s")
     (simp_all add: moveCursorWithClick_def onClickContent_def Let_def)

theorem click_frame_witness:
  "textareaElement stateComposing \<noteq> None \<and> composition stateComposing
   \<and> inputText stateComposing = [0x61]
   \<and> inputText (moveCursorWithClick (clickOnH 105) (clickOnH 105) stateComposing) = []
   \<and> composition (moveCursorWithClick (clickOnH 105) (clickOnH 105) stateComposing)
   \<and> content (moveCursorWithClick (clickOnH 105) (clickOnH 105) stateComposing)
       = content stateComposing
   \<and> inputText (onClickContent (clickOnH 105) stateComposing) = []
   \<and> composition (onClickContent (clickOnH 105) stateComposing)
   \<and> content (onClickContent (clickOnH 105) stateComposing) = content stateComposing"
  using click_frame [of "clickOnH 105" "clickOnH 105" stateComposing]
    click_frame [of "clickOnH 105" "releaseEvent (clickOnH 105)" stateComposing]
  by (simp add: stateComposing_def initialState_def)

section \<open>Composition gate\<close>

lemma renderTextarea_fields [simp]:
  "content (renderTextarea x) = content x"
  "inputText (renderTextarea x) = inputText x"
  "cursorIndex (renderTextarea x) = cursorIndex x"
  "composition (renderTextarea x) = composition x"
  "textareaElement (renderTextarea x)
     = map_option (\<lambda>ta. ta\<lparr>textValue := inputText x\<rparr>) (textareaElement x)"
  by (simp_all add: renderTextarea_def)


lemma userInput_fields [simp]:
  "content (userInput t x) = content x"
  "inputText (userInput t x) = inputText x"
  "cursorIndex (userInput t x) = cursorIndex x"
  "composition (userInput t x) = composition x"
  by (simp_all add: userInput_def)

lemma renderTextarea_userInput: "renderTextarea (userInput t x) = renderTextarea x"
  by (cases "textareaElement x") (simp_all add: renderTextarea_def userInput_def)


lemma moveCursorDelta_fields [simp]:
  "content (moveCursorDelta d x) = content x"
  "inputText (moveCursorDelta d x) = inputText x"
  "composition (moveCursorDelta d x) = composition x"
  by (simp_all add: moveCursorDelta_def Let_def split: option.splits)

lemma removeCharacterAtCursor_fields [simp]:
  "inputText (removeCharacterAtCursor x) = inputText x"
  "composition (removeCharacterAtCursor x) = composition x"
  by (simp_all add: removeCharacterAtCursor_def Let_def)







lemma textareaRef_fields [simp]:
  "content (textareaRef c x) = content x"
  "inputText (textareaRef c x) = inputText x"
  "composition (textareaRef c x) = composition x"
  by (simp_all add: textareaRef_def split: option.splits)

lemma handle_Change: "handle (Change t) x = HandlerThrew TypeError"
  by (simp add: onChangeTextarea_def)

lemma dispatch_Change: "dispatch (Change t) x = Some (renderTextarea x)"
  by (simp add: dispatch_def onChangeTextarea_def renderTextarea_userInput)










text \<open>
  C4. \<open>render\<close> passes \<open>onChangeTextarea\<close> without its \<open>this\<close>, so each change event
  throws a TypeError and stores no pending input. From the idle editor showing "Hi" with
  the cursor at 0, the events composition start, change to "a", change to "ab" leave only
  the composition flag set, and composition end then commits the empty text of the
  textarea: the run ends in the state it started from, with the buffer "Hi" and the cursor
  at 0, not with "ab" inserted and the cursor at 2.
\<close>

theorem composition_session_change_throws:
  "handle (Change [0x61]) (userInput [0x61] (stateHi\<lparr>composition := True\<rparr>))
     = HandlerThrew TypeError
   \<and> run [CompositionStart, Change [0x61], Change [0x61, 0x62]] stateHi
       = Some (stateHi\<lparr>composition := True\<rparr>)
   \<and> run [CompositionStart, Change [0x61], Change [0x61, 0x62], CompositionEnd] stateHi
       = Some stateHi
   \<and> content stateHi = [0x48, 0x69] \<and> cursorIndex stateHi = 0
   \<and> inputText stateHi = [] \<and> \<not> composition stateHi"
proof -
  have h: "handle (Change [0x61]) (userInput [0x61] (stateHi\<lparr>composition := True\<rparr>))
     = HandlerThrew TypeError"
    by (simp add: onChangeTextarea_def)
  have s: "dispatch CompositionStart stateHi = Some (stateHi\<lparr>composition := True\<rparr>)"
    by (simp add: dispatch_def onCompositionStart_def renderTextarea_def stateHi_def)
  have c: "dispatch (Change t) (stateHi\<lparr>composition := True\<rparr>)
           = Some (stateHi\<lparr>composition := True\<rparr>)" for t
    by (simp add: dispatch_Change renderTextarea_def stateHi_def)
  have e: "dispatch CompositionEnd (stateHi\<lparr>composition := True\<rparr>) = Some stateHi"
    by (simp add: dispatch_def onCompositionEnd_def fixTextarea_def Let_def join_inserted
        renderTextarea_def stateHi_def)
  have v: "content stateHi = [0x48, 0x69]" "cursorIndex stateHi = 0"
    "inputText stateHi = []" "\<not> composition stateHi"
    by (simp_all add: stateHi_def)
  show ?thesis using h v by (simp add: s c e)
qed

end
